theory Spec2Isabelle
  imports Complex_Main
begin

section \<open>Values: floats, numbers, cells\<close>

text \<open>
  The code performs no floating-point arithmetic: it compares a probability with the
  threshold, converts between integers and floats and tests for NaN. A finite double is
  represented by its exact real value; the three special values are kept apart, because
  \<^verbatim>\<open>isnull\<close> and \<^verbatim>\<open>>=\<close> treat NaN specially.
\<close>

datatype pyfloat = Fin real | PosInf | NegInf | NaN

text \<open>IEEE comparison \<^verbatim>\<open>a >= b\<close>: false as soon as one side is NaN.\<close>

fun float_ge :: "pyfloat \<Rightarrow> pyfloat \<Rightarrow> bool" where
  "float_ge NaN b = False"
| "float_ge a NaN = False"
| "float_ge PosInf b = True"
| "float_ge a NegInf = True"
| "float_ge (Fin a) (Fin b) = (b \<le> a)"
| "float_ge (Fin a) PosInf = False"
| "float_ge NegInf b = False"

text \<open>A numeric value as \<^verbatim>\<open>pd.to_numeric\<close> or the JSON reader yields it.\<close>

datatype number = NInt int | NFloat pyfloat

text \<open>\<^verbatim>\<open>float(x)\<close> of a number.\<close>

fun to_float :: "number \<Rightarrow> pyfloat" where
  "to_float (NInt i) = Fin (of_int i)"
| "to_float (NFloat f) = f"

text \<open>
  One cell of a DataFrame: an integer, a float, a string or a null (\<^verbatim>\<open>None\<close>,
  \<^verbatim>\<open>pd.NA\<close>). A float NaN is a float cell that \<^verbatim>\<open>isnull\<close> reports as null.
\<close>

datatype cell = CInt int | CFloat pyfloat | CStr string | CNull

fun isnull :: "cell \<Rightarrow> bool" where
  "isnull CNull = True"
| "isnull (CFloat NaN) = True"
| "isnull c = False"

section \<open>Errors\<close>

text \<open>
  Every exception the modelled code can raise. \<open>ModelError\<close> and \<open>ValidationError\<close> are
  the classes of \<^verbatim>\<open>exceptions.py\<close> (the second a subclass of the first),
  \<open>PredictionError\<close> is the service's. The others are raised inside pandas or numpy and
  are none of the repository's classes: \<open>UnableToParseString\<close> is the \<^verbatim>\<open>ValueError\<close> of
  \<^verbatim>\<open>pd.to_numeric(errors="raise")\<close> on a string it cannot parse, \<open>IntCastingNaNError\<close>
  the \<^verbatim>\<open>ValueError\<close> of \<^verbatim>\<open>astype("int64")\<close> on NaN or an infinity, \<open>IndexError\<close> that of
  \<^verbatim>\<open>probabilities[:, 1]\<close> on an array with fewer than two columns, \<open>LengthMismatch\<close>
  the \<^verbatim>\<open>ValueError\<close> of \<^verbatim>\<open>pd.Series(values, index=...)\<close> when the lengths differ,
  \<open>KeyError\<close> that of selecting an absent column. \<open>EstimatorRaised\<close> and \<open>ReaderRaised\<close>
  stand for whatever the estimator or the file reader raises.
\<close>

datatype error =
    ModelError string
  | ValidationError string
  | PredictionError string
  | UnableToParseString string
  | IntCastingNaNError
  | IndexError
  | LengthMismatch
  | KeyError string
  | EstimatorRaised string
  | ReaderRaised string

section \<open>Strings\<close>

text \<open>The decimal digit of a number below ten.\<close>

definition digit_char :: "nat \<Rightarrow> char" where
  "digit_char n = ''0123456789'' ! n"

text \<open>\<^verbatim>\<open>str(n)\<close> of a natural number and of an integer: decimal, no leading zeros.\<close>

function str_nat :: "nat \<Rightarrow> string" where
  "str_nat n = (if n < 10 then [digit_char n] else str_nat (n div 10) @ [digit_char (n mod 10)])"
  by pat_completeness auto
termination
  by (relation "measure (\<lambda>n. n)") auto

declare str_nat.simps [simp del]

definition str_int :: "int \<Rightarrow> string" where
  "str_int i = (if i < 0 then CHR ''-'' # str_nat (nat (- i)) else str_nat (nat i))"

text \<open>\<^verbatim>\<open>sep.join(xs)\<close>.\<close>

fun join :: "string \<Rightarrow> string list \<Rightarrow> string" where
  "join sep [] = []"
| "join sep [x] = x"
| "join sep (x # y # ys) = x @ sep @ join sep (y # ys)"

text \<open>A string between single quotes, as \<^verbatim>\<open>f"'{s}'"\<close> renders it.\<close>

definition quoted :: "string \<Rightarrow> string" where
  "quoted s = CHR 0x27 # s @ [CHR 0x27]"

text \<open>\<^verbatim>\<open>s.startswith(p)\<close>.\<close>

definition startswith :: "string \<Rightarrow> string \<Rightarrow> bool" where
  "startswith s p = (take (length p) s = p)"

text \<open>
  The characters the pattern \<^verbatim>\<open>\s\<close> matches among the ASCII ones: tab, line feed,
  vertical tab, form feed, carriage return, the four separators 28 to 31 and the space.
  Strings are modelled as sequences of ASCII characters.
\<close>

definition is_space :: "char \<Rightarrow> bool" where
  "is_space c = (let n = of_char c :: nat in (9 \<le> n \<and> n \<le> 13) \<or> (28 \<le> n \<and> n \<le> 32))"

text \<open>A full match of \<^verbatim>\<open>^\s*$\<close>: the string is empty or whitespace only.\<close>

definition blank :: "string \<Rightarrow> bool" where
  "blank s = list_all is_space s"

section \<open>Frames and arrays\<close>

text \<open>
  A DataFrame is its row count and its labelled columns, in order. Rows are positional:
  both callers build their frames with the default range index
  (\<^verbatim>\<open>pd.DataFrame([payload])\<close>, \<^verbatim>\<open>pd.read_csv\<close>, \<^verbatim>\<open>pd.read_excel\<close>), so aligning on the
  index is aligning on the position. A well-formed frame has distinct labels (the readers
  rename duplicates, a dict has none) and columns of the frame's length.
\<close>

record frame =
  nrows :: nat
  columns :: "(string \<times> cell list) list"

definition labels :: "frame \<Rightarrow> string list" where
  "labels fr = map fst (columns fr)"

definition wf_frame :: "frame \<Rightarrow> bool" where
  "wf_frame fr = (distinct (labels fr) \<and> list_all (\<lambda>col. length (snd col) = nrows fr) (columns fr))"

text \<open>\<^verbatim>\<open>frame[col]\<close>: the column, or \<^verbatim>\<open>KeyError\<close>.\<close>

definition getitem :: "frame \<Rightarrow> string \<Rightarrow> error + cell list" where
  "getitem fr col = (case map_of (columns fr) col of None \<Rightarrow> Inl (KeyError col) | Some cells \<Rightarrow> Inr cells)"

text \<open>\<^verbatim>\<open>frame[cols]\<close>: the projection on a list of labels, in the order of the list.\<close>

fun getitems :: "frame \<Rightarrow> string list \<Rightarrow> error + (string \<times> cell list) list" where
  "getitems fr [] = Inr []"
| "getitems fr (c # cs) =
     (case getitem fr c of
        Inl e \<Rightarrow> Inl e
      | Inr cells \<Rightarrow> (case getitems fr cs of Inl e \<Rightarrow> Inl e | Inr rest \<Rightarrow> Inr ((c, cells) # rest)))"

text \<open>\<^verbatim>\<open>features[column] = cells\<close> for a label the frame has: the column is replaced in place.\<close>

definition setitem :: "(string \<times> cell list) list \<Rightarrow> string \<Rightarrow> cell list \<Rightarrow> (string \<times> cell list) list" where
  "setitem cols column cells = map (\<lambda>(l, old). if l = column then (l, cells) else (l, old)) cols"

text \<open>
  A two-dimensional numpy array: its shape and its entries. \<^verbatim>\<open>a[:, 1]\<close> is column 1 of
  every row, or \<^verbatim>\<open>IndexError\<close> when the second axis is shorter than two.
\<close>

record ndarray =
  shape_rows :: nat
  shape_cols :: nat
  entry :: "nat \<Rightarrow> nat \<Rightarrow> pyfloat"

definition column1 :: "ndarray \<Rightarrow> error + pyfloat list" where
  "column1 a = (if 1 < shape_cols a then Inr (map (\<lambda>i. entry a i 1) [0..<shape_rows a]) else Inl IndexError)"

section \<open>Library operations taken as parameters\<close>

text \<open>
  Two operations of the libraries are not fixed here and every theorem holds for each
  choice of them: the parser \<^verbatim>\<open>pd.to_numeric\<close> applies to a string cell (\<open>None\<close> when
  it cannot parse the string) and \<^verbatim>\<open>str\<close> of a float.
\<close>

record pandas =
  parse_numeric :: "string \<Rightarrow> number option"
  float_str :: "pyfloat \<Rightarrow> string"

text \<open>
  \<^verbatim>\<open>features.replace(r"^\s*$", pd.NA, regex=True)\<close>: a string cell that is empty or
  whitespace only becomes null; every other cell is left as it is.
\<close>

fun replace_blank :: "cell \<Rightarrow> cell" where
  "replace_blank (CStr s) = (if blank s then CNull else CStr s)"
| "replace_blank c = c"

text \<open>
  \<^verbatim>\<open>pd.to_numeric(column, errors="raise")\<close>, cell by cell: numbers stay, a null becomes
  NaN, a string is parsed and the first string that does not parse raises.
\<close>

fun to_numeric_cell :: "pandas \<Rightarrow> cell \<Rightarrow> error + number" where
  "to_numeric_cell pd (CInt i) = Inr (NInt i)"
| "to_numeric_cell pd (CFloat f) = Inr (NFloat f)"
| "to_numeric_cell pd CNull = Inr (NFloat NaN)"
| "to_numeric_cell pd (CStr s) =
     (case parse_numeric pd s of None \<Rightarrow> Inl (UnableToParseString s) | Some n \<Rightarrow> Inr n)"

text \<open>Mapping a fallible function over a list: the first error wins.\<close>

fun map_err :: "('a \<Rightarrow> error + 'b) \<Rightarrow> 'a list \<Rightarrow> error + 'b list" where
  "map_err f [] = Inr []"
| "map_err f (x # xs) =
     (case f x of
        Inl e \<Rightarrow> Inl e
      | Inr y \<Rightarrow> (case map_err f xs of Inl e \<Rightarrow> Inl e | Inr ys \<Rightarrow> Inr (y # ys)))"

definition to_numeric :: "pandas \<Rightarrow> cell list \<Rightarrow> error + number list" where
  "to_numeric pd cells = map_err (to_numeric_cell pd) cells"

text \<open>
  \<^verbatim>\<open>.astype("int64")\<close> of a numeric value: an integer stays, a finite float is truncated
  towards zero, NaN and the infinities raise.
\<close>

fun astype_int64 :: "number \<Rightarrow> error + cell" where
  "astype_int64 (NInt i) = Inr (CInt i)"
| "astype_int64 (NFloat (Fin r)) = Inr (CInt (if 0 \<le> r then \<lfloor>r\<rfloor> else \<lceil>r\<rceil>))"
| "astype_int64 (NFloat f) = Inl IntCastingNaNError"

text \<open>\<^verbatim>\<open>.astype("float64")\<close> of a numeric value.\<close>

definition astype_float64 :: "number \<Rightarrow> cell" where
  "astype_float64 n = CFloat (to_float n)"

text \<open>\<^verbatim>\<open>.astype(str)\<close> of an identifier cell.\<close>

fun astype_str :: "pandas \<Rightarrow> cell \<Rightarrow> string" where
  "astype_str pd (CInt i) = str_int i"
| "astype_str pd (CFloat f) = float_str pd f"
| "astype_str pd (CStr s) = s"
| "astype_str pd CNull = ''<NA>''"

section \<open>The model: \<^verbatim>\<open>credit_default_model/model.py\<close>\<close>

text \<open>
  The fields of \<^verbatim>\<open>CreditDefaultModel\<close> the scoring path reads. The estimator is opaque:
  a function from the prepared feature frame to the array its \<^verbatim>\<open>predict_proba\<close>
  returns, or to the exception it raises.
\<close>

record model =
  estimator :: "frame \<Rightarrow> error + ndarray"
  expected_columns :: "string list"
  dtype_map :: "(string \<times> string) list"
  threshold :: pyfloat
  id_column :: string

text \<open>
  The loop over \<^verbatim>\<open>self._dtype_map.items()\<close> (lines 136 to 152), in the dict's order:
  a column the features do not have is skipped; \<^verbatim>\<open>int*\<close> and \<^verbatim>\<open>float*\<close> columns are
  parsed and cast; \<^verbatim>\<open>category\<close> keeps the cells; any other dtype raises.
\<close>

fun coerce :: "pandas \<Rightarrow> (string \<times> string) list \<Rightarrow> (string \<times> cell list) list
    \<Rightarrow> error + (string \<times> cell list) list" where
  "coerce pd [] features = Inr features"
| "coerce pd ((column, dtype) # rest) features =
     (case map_of features column of
        None \<Rightarrow> coerce pd rest features
      | Some cells \<Rightarrow>
          if startswith dtype ''int'' then
            (case to_numeric pd cells of
               Inl e \<Rightarrow> Inl e
             | Inr nums \<Rightarrow>
                 (case map_err astype_int64 nums of
                    Inl e \<Rightarrow> Inl e
                  | Inr cells' \<Rightarrow> coerce pd rest (setitem features column cells')))
          else if startswith dtype ''float'' then
            (case to_numeric pd cells of
               Inl e \<Rightarrow> Inl e
             | Inr nums \<Rightarrow> coerce pd rest (setitem features column (map astype_float64 nums)))
          else if dtype = ''category'' then
            coerce pd rest (setitem features column cells)
          else
            Inl (ValidationError
              (''Unsupported dtype '' @ quoted dtype @ '' for column '' @ quoted column @ ''.'')))"

text \<open>\<^verbatim>\<open>features.isnull().any(axis=1).any()\<close>: some cell of some column is null.\<close>

definition has_null :: "(string \<times> cell list) list \<Rightarrow> bool" where
  "has_null cols = list_ex (\<lambda>col. list_ex isnull (snd col)) cols"

text \<open>The extra columns of line 126, which are only logged.\<close>

definition extra :: "model \<Rightarrow> frame \<Rightarrow> string list" where
  "extra m fr = filter (\<lambda>col. col \<notin> set (expected_columns m) \<and> col \<noteq> id_column m) (labels fr)"

text \<open>The missing columns of line 122.\<close>

definition missing :: "model \<Rightarrow> frame \<Rightarrow> string list" where
  "missing m fr = filter (\<lambda>col. col \<notin> set (labels fr)) (expected_columns m)"

text \<open>\<^verbatim>\<open>_prepare_features\<close>, check by check in the order of the source.\<close>

definition prepare_features :: "pandas \<Rightarrow> model \<Rightarrow> frame \<Rightarrow> error + frame \<times> string list" where
  "prepare_features pd m fr =
     (if id_column m \<notin> set (labels fr) then
        Inl (ValidationError (''Missing identifier column: '' @ id_column m @ ''.''))
      else if ''default'' \<in> set (labels fr) then
        Inl (ValidationError ''Column 'default' is not allowed in inference payloads.'')
      else if missing m fr \<noteq> [] then
        Inl (ValidationError (''Missing columns: '' @ join '', '' (missing m fr) @ ''.''))
      else
        (case getitems fr (expected_columns m) of
           Inl e \<Rightarrow> Inl e
         | Inr selected \<Rightarrow>
            (case coerce pd (dtype_map m) (map (\<lambda>(l, cells). (l, map replace_blank cells)) selected) of
               Inl e \<Rightarrow> Inl e
             | Inr features \<Rightarrow>
                 if has_null features then
                   Inl (ValidationError ''Input payload contains missing values.'')
                 else
                   (case getitem fr (id_column m) of
                      Inl e \<Rightarrow> Inl e
                    | Inr identifiers \<Rightarrow>
                        if list_ex isnull identifiers then
                          Inl (ValidationError ''Identifier column contains missing values.'')
                        else
                          Inr (\<lparr>nrows = nrows fr, columns = features\<rparr>,
                               map (astype_str pd) identifiers)))))"

text \<open>
  \<^verbatim>\<open>_predict_proba\<close>: the estimator's array, its column 1, wrapped in a Series on the
  features' index, which raises when the lengths differ.
\<close>

definition predict_proba_prepared :: "model \<Rightarrow> frame \<Rightarrow> error + pyfloat list" where
  "predict_proba_prepared m features =
     (case estimator m features of
        Inl e \<Rightarrow> Inl e
      | Inr probabilities \<Rightarrow>
          (case column1 probabilities of
             Inl e \<Rightarrow> Inl e
           | Inr positive \<Rightarrow>
               if length positive = nrows features then Inr positive else Inl LengthMismatch))"

text \<open>\<^verbatim>\<open>predict_proba\<close>, the public method.\<close>

definition predict_proba :: "pandas \<Rightarrow> model \<Rightarrow> frame \<Rightarrow> error + pyfloat list" where
  "predict_proba pd m fr =
     (case prepare_features pd m fr of
        Inl e \<Rightarrow> Inl e
      | Inr (features, identifiers) \<Rightarrow> predict_proba_prepared m features)"

text \<open>One row of the frame \<^verbatim>\<open>score\<close> returns.\<close>

record prediction =
  rec_id :: string
  probability :: pyfloat
  is_default :: bool

text \<open>
  \<^verbatim>\<open>score\<close>: the identifiers and the probabilities side by side, row by row, and the
  flag computed from the probability column.
\<close>

definition score :: "pandas \<Rightarrow> model \<Rightarrow> frame \<Rightarrow> error + prediction list" where
  "score pd m fr =
     (case prepare_features pd m fr of
        Inl e \<Rightarrow> Inl e
      | Inr (features, identifiers) \<Rightarrow>
          (case predict_proba_prepared m features of
             Inl e \<Rightarrow> Inl e
           | Inr probabilities \<Rightarrow>
               Inr (map (\<lambda>(i, p). \<lparr>rec_id = i, probability = p, is_default = float_ge p (threshold m)\<rparr>)
                      (zip identifiers probabilities))))"

section \<open>Loading: \<^verbatim>\<open>CreditDefaultModel.__init__\<close>\<close>

text \<open>
  What the constructor reads: the three paths and the default identifier name of the
  settings, and the three artifacts, each absent (\<open>None\<close>) when its path does not exist.
  Of the signature the keys \<^verbatim>\<open>expected_columns\<close>, \<^verbatim>\<open>dtypes\<close> and \<^verbatim>\<open>id_name\<close> are read, of
  the metadata the key \<^verbatim>\<open>threshold\<close>, a JSON number; \<open>None\<close> is an absent key or a JSON null.
\<close>

record model_settings =
  model_path :: string
  signature_path :: string
  metadata_path :: string
  id_column_name :: string

record signature =
  sig_expected_columns :: "string list option"
  sig_dtypes :: "(string \<times> string) list option"
  sig_id_name :: "string option"

record metadata =
  meta_threshold :: "number option"

record artifacts =
  estimator_file :: "(frame \<Rightarrow> error + ndarray) option"
  signature_file :: "signature option"
  metadata_file :: "metadata option"

definition init :: "model_settings \<Rightarrow> artifacts \<Rightarrow> error + model" where
  "init st art =
     (case estimator_file art of
        None \<Rightarrow> Inl (ModelError (''Estimator artifact not found at '' @ model_path st @ ''.''))
      | Some est \<Rightarrow>
     (case signature_file art of
        None \<Rightarrow> Inl (ModelError (''JSON artifact not found at '' @ signature_path st @ ''.''))
      | Some sg \<Rightarrow>
     (case metadata_file art of
        None \<Rightarrow> Inl (ModelError (''JSON artifact not found at '' @ metadata_path st @ ''.''))
      | Some md \<Rightarrow>
     (case meta_threshold md of
        None \<Rightarrow> Inl (ModelError ''Model metadata does not declare a probability threshold.'')
      | Some metadata_threshold \<Rightarrow>
          Inr \<lparr>estimator = est,
               expected_columns = (case sig_expected_columns sg of None \<Rightarrow> [] | Some cs \<Rightarrow> cs),
               dtype_map = (case sig_dtypes sg of None \<Rightarrow> [] | Some ds \<Rightarrow> ds),
               threshold = to_float metadata_threshold,
               id_column = (case sig_id_name sg of
                              None \<Rightarrow> id_column_name st
                            | Some n \<Rightarrow> if n = [] then id_column_name st else n)\<rparr>))))"

section \<open>The service: \<^verbatim>\<open>app/services/prediction_service.py\<close>\<close>

text \<open>
  The file reader's library operations, taken as parameters: \<^verbatim>\<open>Path(filename).suffix\<close>,
  \<^verbatim>\<open>pd.read_csv\<close> and \<^verbatim>\<open>pd.read_excel\<close> on the uploaded bytes.
\<close>

record reader =
  path_suffix :: "string \<Rightarrow> string"
  read_csv :: "string \<Rightarrow> error + frame"
  read_excel :: "string \<Rightarrow> error + frame"

text \<open>\<^verbatim>\<open>str.lower\<close> on ASCII letters.\<close>

definition lower_char :: "char \<Rightarrow> char" where
  "lower_char c = (let n = of_char c :: nat in if 65 \<le> n \<and> n \<le> 90 then char_of (n + 32) else c)"

definition read_input_file :: "reader \<Rightarrow> string \<Rightarrow> string \<Rightarrow> error + frame" where
  "read_input_file rd file_bytes filename =
     (let extension = map lower_char (path_suffix rd filename) in
      if extension = ''.csv'' then read_csv rd file_bytes
      else if extension = ''.xls'' then read_excel rd file_bytes
      else Inl (PredictionError ''Only CSV and XLS files are supported.''))"

text \<open>
  \<^verbatim>\<open>predict_batch\<close>: the size guard, then \<^verbatim>\<open>score\<close>; a \<open>ValidationError\<close> is re-raised as
  a \<open>PredictionError\<close> with the same message, any other exception passes through.
  The worker thread that runs \<^verbatim>\<open>score\<close> is not modelled, only the value it returns;
  \<^verbatim>\<open>reset_index(drop=True)\<close> changes nothing on positional rows.
\<close>

definition predict_batch :: "reader \<Rightarrow> pandas \<Rightarrow> model \<Rightarrow> int \<Rightarrow> string \<Rightarrow> string
    \<Rightarrow> error + prediction list" where
  "predict_batch rd pd m max_batch_rows file_bytes filename =
     (case read_input_file rd file_bytes filename of
        Inl e \<Rightarrow> Inl e
      | Inr dataframe \<Rightarrow>
          if max_batch_rows < int (nrows dataframe) then
            Inl (PredictionError
              (''Batch size '' @ str_int (int (nrows dataframe)) @ '' exceeds limit of ''
                 @ str_int max_batch_rows @ '' rows.''))
          else
            (case score pd m dataframe of
               Inl (ValidationError msg) \<Rightarrow> Inl (PredictionError msg)
             | Inl e \<Rightarrow> Inl e
             | Inr scored \<Rightarrow> Inr scored))"

section \<open>Sample instances\<close>

text \<open>
  Concrete values for the examples below. The sample parser reads unsigned decimal
  integer literals, on which \<^verbatim>\<open>pd.to_numeric\<close> yields the same integer, and rejects the
  strings the examples use as unparsable; the sample \<^verbatim>\<open>str\<close> covers the floats with an
  integral value, no other float occurs as an identifier in the examples.
\<close>

definition is_digit :: "char \<Rightarrow> bool" where
  "is_digit c = (let n = of_char c :: nat in 48 \<le> n \<and> n \<le> 57)"

definition digits_value :: "string \<Rightarrow> nat" where
  "digits_value s = foldl (\<lambda>acc c. 10 * acc + (of_char c - 48)) 0 s"

definition sample_parse :: "string \<Rightarrow> number option" where
  "sample_parse s = (if s \<noteq> [] \<and> list_all is_digit s then Some (NInt (int (digits_value s))) else None)"

fun sample_float_str :: "pyfloat \<Rightarrow> string" where
  "sample_float_str (Fin r) = str_int \<lfloor>r\<rfloor> @ ''.0''"
| "sample_float_str PosInf = ''inf''"
| "sample_float_str NegInf = ''-inf''"
| "sample_float_str NaN = ''nan''"

definition sample_pandas :: pandas where
  "sample_pandas = \<lparr>parse_numeric = sample_parse, float_str = sample_float_str\<rparr>"

text \<open>An estimator that gives every row the class probabilities 0.27 and 0.73.\<close>

definition binary_estimator :: "frame \<Rightarrow> error + ndarray" where
  "binary_estimator features =
     Inr \<lparr>shape_rows = nrows features, shape_cols = 2,
          entry = (\<lambda>i j. if j = 0 then Fin 0.27 else Fin 0.73)\<rparr>"

text \<open>The scenario of the specification: two features, identifier \<^verbatim>\<open>ID\<close>, threshold 0.5.\<close>

definition sample_settings :: model_settings where
  "sample_settings = \<lparr>model_path = ''models/cat_model_v1.0.0.pkl'',
     signature_path = ''models/cat_model_v1.0.0_input_signature.json'',
     metadata_path = ''models/cat_model_v1.0.0_metadata.json'',
     id_column_name = ''ID''\<rparr>"

definition sample_artifacts :: artifacts where
  "sample_artifacts = \<lparr>estimator_file = Some binary_estimator,
     signature_file = Some \<lparr>sig_expected_columns = Some [''LIMIT_BAL'', ''AGE''],
        sig_dtypes = Some [(''LIMIT_BAL'', ''float''), (''AGE'', ''int'')],
        sig_id_name = None\<rparr>,
     metadata_file = Some \<lparr>meta_threshold = Some (NFloat (Fin 0.5))\<rparr>\<rparr>"

definition sample_model :: model where
  "sample_model = \<lparr>estimator = binary_estimator,
     expected_columns = [''LIMIT_BAL'', ''AGE''],
     dtype_map = [(''LIMIT_BAL'', ''float''), (''AGE'', ''int'')],
     threshold = Fin 0.5,
     id_column = ''ID''\<rparr>"

definition sample_frame :: frame where
  "sample_frame = \<lparr>nrows = 1,
     columns = [(''ID'', [CInt 1001]), (''LIMIT_BAL'', [CStr ''200000'']), (''AGE'', [CStr ''35''])]\<rparr>"

definition sample_features :: frame where
  "sample_features = \<lparr>nrows = 1,
     columns = [(''LIMIT_BAL'', [CFloat (Fin 200000)]), (''AGE'', [CInt 35])]\<rparr>"

text \<open>Two rejected payloads: one without the identifier and without \<^verbatim>\<open>AGE\<close>, one with the identifier only.\<close>

definition frame_without_id :: frame where
  "frame_without_id = \<lparr>nrows = 1, columns = [(''LIMIT_BAL'', [CStr ''200000''])]\<rparr>"

definition frame_only_id :: frame where
  "frame_only_id = \<lparr>nrows = 1, columns = [(''ID'', [CInt 1001])]\<rparr>"

text \<open>
  A batch of 60001 rows that has no identifier column, and a reader that yields it for
  every CSV upload.
\<close>

definition big_frame :: frame where
  "big_frame = \<lparr>nrows = 60001, columns = [(''AGE'', replicate 60001 (CStr ''35''))]\<rparr>"

definition sample_reader :: reader where
  "sample_reader = \<lparr>path_suffix = (\<lambda>filename. drop (length filename - 4) filename),
     read_csv = (\<lambda>file_bytes. Inr big_frame),
     read_excel = (\<lambda>file_bytes. Inl (ReaderRaised ''not a spreadsheet''))\<rparr>"

text \<open>An estimator with three classes, and one whose array has a single column.\<close>

definition three_class_estimator :: "frame \<Rightarrow> error + ndarray" where
  "three_class_estimator features =
     Inr \<lparr>shape_rows = nrows features, shape_cols = 3,
          entry = (\<lambda>i j. if j = 0 then Fin 0.2 else if j = 1 then Fin 0.3 else Fin 0.5)\<rparr>"

definition one_column_estimator :: "frame \<Rightarrow> error + ndarray" where
  "one_column_estimator features =
     Inr \<lparr>shape_rows = nrows features, shape_cols = 1, entry = (\<lambda>i j. Fin 0.73)\<rparr>"

text \<open>
  The batch of the specification's scenario, row 2 with an empty \<^verbatim>\<open>AGE\<close> (declared
  \<^verbatim>\<open>int\<close>), the same with two spaces for \<^verbatim>\<open>AGE\<close>, and the same batch with a blank
  \<^verbatim>\<open>LIMIT_BAL\<close> (declared \<^verbatim>\<open>float\<close>) instead.
\<close>

definition frame_blank_age :: frame where
  "frame_blank_age = \<lparr>nrows = 2,
     columns = [(''ID'', [CInt 1001, CInt 1002]),
                (''LIMIT_BAL'', [CStr ''200000'', CStr ''200000'']),
                (''AGE'', [CStr ''35'', CStr ''''])]\<rparr>"

definition frame_space_age :: frame where
  "frame_space_age = \<lparr>nrows = 2,
     columns = [(''ID'', [CInt 1001, CInt 1002]),
                (''LIMIT_BAL'', [CStr ''200000'', CStr ''200000'']),
                (''AGE'', [CStr ''35'', CStr ''  ''])]\<rparr>"

definition frame_blank_limit :: frame where
  "frame_blank_limit = \<lparr>nrows = 2,
     columns = [(''ID'', [CInt 1001, CInt 1002]),
                (''LIMIT_BAL'', [CStr ''200000'', CStr '' '']),
                (''AGE'', [CStr ''35'', CStr ''36''])]\<rparr>"

text \<open>
  An estimator whose probabilities depend on the row (0.73 for the rows of age 35, 0.25
  for the others), and a batch of two rows with its prepared features.
\<close>

definition age_estimator :: "frame \<Rightarrow> error + ndarray" where
  "age_estimator features =
     Inr \<lparr>shape_rows = nrows features, shape_cols = 2,
          entry = (\<lambda>i j. case map_of (columns features) ''AGE'' of
                      None \<Rightarrow> NaN
                    | Some cells \<Rightarrow>
                        if i < length cells \<and> cells ! i = CInt 35
                        then (if j = 1 then Fin 0.73 else Fin 0.27)
                        else (if j = 1 then Fin 0.25 else Fin 0.75))\<rparr>"

definition sample_batch :: frame where
  "sample_batch = \<lparr>nrows = 2,
     columns = [(''ID'', [CInt 1002, CInt 1001]),
                (''LIMIT_BAL'', [CStr ''50000'', CStr ''200000'']),
                (''AGE'', [CStr ''60'', CStr ''35''])]\<rparr>"

definition sample_batch_features :: frame where
  "sample_batch_features = \<lparr>nrows = 2,
     columns = [(''LIMIT_BAL'', [CFloat (Fin 50000), CFloat (Fin 200000)]), (''AGE'', [CInt 60, CInt 35])]\<rparr>"

text \<open>The sample payload with one more column, which the signature does not know.\<close>

definition frame_with_extra :: frame where
  "frame_with_extra = sample_frame\<lparr>columns := columns sample_frame @ [(''NOTE'', [CStr ''vip''])]\<rparr>"

text \<open>
  Two more signatures, one that also declares a dtype for the identifier column, one
  that declares \<^verbatim>\<open>AGE\<close> as \<^verbatim>\<open>object\<close>; and two payloads, one with an unparsable and one
  with a fractional \<^verbatim>\<open>AGE\<close>.
\<close>

definition model_declaring_id :: model where
  "model_declaring_id = sample_model\<lparr>dtype_map :=
     [(''LIMIT_BAL'', ''float''), (''AGE'', ''int''), (''ID'', ''object'')]\<rparr>"

definition model_object_age :: model where
  "model_object_age = sample_model\<lparr>dtype_map := [(''LIMIT_BAL'', ''float''), (''AGE'', ''object'')]\<rparr>"

definition frame_unparsable_age :: frame where
  "frame_unparsable_age = \<lparr>nrows = 1,
     columns = [(''ID'', [CInt 1001]), (''LIMIT_BAL'', [CStr ''200000'']), (''AGE'', [CStr ''abc''])]\<rparr>"

definition frame_fractional_age :: frame where
  "frame_fractional_age = \<lparr>nrows = 1,
     columns = [(''ID'', [CInt 1001]), (''LIMIT_BAL'', [CStr ''200000'']), (''AGE'', [CFloat (Fin 35.5)])]\<rparr>"

section \<open>Auxiliary facts\<close>

lemma map_err_length: "map_err f xs = Inr ys \<Longrightarrow> length ys = length xs"
  by (induction xs arbitrary: ys) (auto split: sum.splits)

lemma map_err_Inl: "x \<in> set xs \<Longrightarrow> f x = Inl e \<Longrightarrow> \<exists>e'. map_err f xs = Inl e'"
  by (induction xs) (auto split: sum.splits)

lemma labels_setitem: "map fst (setitem cols column cells) = map fst cols"
  by (induction cols) (auto simp: setitem_def)

lemma getitems_labels: "getitems fr cs = Inr sel \<Longrightarrow> map fst sel = cs"
  by (induction cs arbitrary: sel) (auto split: sum.splits)

lemma coerce_labels: "coerce pd dts features = Inr features' \<Longrightarrow> map fst features' = map fst features"
proof (induction pd dts features rule: coerce.induct)
  case (1 pd features)
  then show ?case by simp
next
  case (2 pd column dtype rest features)
  then show ?case
    by (auto split: option.splits sum.splits if_splits simp: labels_setitem)
qed

lemma join_contains: "c \<in> set xs \<Longrightarrow> \<exists>pre post. join sep xs = pre @ c @ post"
proof (induction sep xs rule: join.induct)
  case (1 sep)
  then show ?case by simp
next
  case (2 sep x)
  then have "join sep [x] = [] @ c @ []" by simp
  then show ?case by blast
next
  case (3 sep x y ys)
  show ?case
  proof (cases "c = x")
    case True
    then have "join sep (x # y # ys) = [] @ c @ (sep @ join sep (y # ys))" by simp
    then show ?thesis by blast
  next
    case False
    with 3 obtain pre post where "join sep (y # ys) = pre @ c @ post" by auto
    then have "join sep (x # y # ys) = (x @ sep @ pre) @ c @ post" by simp
    then show ?thesis by blast
  qed
qed

lemma prepare_features_InrD:
  assumes "prepare_features pd m fr = Inr (features, identifiers)"
  shows "id_column m \<in> set (labels fr) \<and> ''default'' \<notin> set (labels fr) \<and> missing m fr = [] \<and>
    (\<exists>sel cols ids. getitems fr (expected_columns m) = Inr sel \<and>
       coerce pd (dtype_map m) (map (\<lambda>(l, cells). (l, map replace_blank cells)) sel) = Inr cols \<and>
       \<not> has_null cols \<and> getitem fr (id_column m) = Inr ids \<and> \<not> list_ex isnull ids \<and>
       features = \<lparr>nrows = nrows fr, columns = cols\<rparr> \<and> identifiers = map (astype_str pd) ids)"
  using assms unfolding prepare_features_def
  by (auto split: if_splits sum.splits)

section \<open>Validation order\<close>

text \<open>
  C3. The identifier check comes first: a payload without the identifier column is
  rejected with the missing-identifier message, whatever else is missing, and never with
  the missing-columns message. When the identifier is present, the label column absent
  and some expected column absent, the payload is rejected with the missing-columns
  message, which lists every absent expected column, in the signature's order: each of
  them is in the list and occurs in the joined text.
\<close>

theorem validation_order:
  "(id_column m \<notin> set (labels fr) \<longrightarrow>
      prepare_features pd m fr = Inl (ValidationError (''Missing identifier column: '' @ id_column m @ ''.''))
      \<and> prepare_features pd m fr \<noteq> Inl (ValidationError (''Missing columns: '' @ join '', '' (missing m fr) @ ''.'')))
   \<and> (id_column m \<in> set (labels fr) \<and> ''default'' \<notin> set (labels fr) \<and> missing m fr \<noteq> [] \<longrightarrow>
      prepare_features pd m fr = Inl (ValidationError (''Missing columns: '' @ join '', '' (missing m fr) @ ''.''))
      \<and> (\<forall>c \<in> set (expected_columns m). c \<notin> set (labels fr) \<longrightarrow>
            c \<in> set (missing m fr) \<and> (\<exists>pre post. join '', '' (missing m fr) = pre @ c @ post)))"
proof -
  have "\<And>c. c \<in> set (missing m fr) \<Longrightarrow> \<exists>pre post. join '', '' (missing m fr) = pre @ c @ post"
    by (rule join_contains)
  moreover have "\<And>c. c \<in> set (expected_columns m) \<Longrightarrow> c \<notin> set (labels fr) \<Longrightarrow> c \<in> set (missing m fr)"
    by (simp add: missing_def)
  ultimately show ?thesis
    by (simp add: prepare_features_def)
qed

theorem validation_order_witness:
  "id_column sample_model \<notin> set (labels frame_without_id) \<and>
   missing sample_model frame_without_id = [''AGE''] \<and>
   prepare_features sample_pandas sample_model frame_without_id
     = Inl (ValidationError ''Missing identifier column: ID.'') \<and>
   id_column sample_model \<in> set (labels frame_only_id) \<and>
   ''default'' \<notin> set (labels frame_only_id) \<and>
   prepare_features sample_pandas sample_model frame_only_id
     = Inl (ValidationError ''Missing columns: LIMIT_BAL, AGE.'')"
  using validation_order [of sample_model frame_without_id sample_pandas]
    validation_order [of sample_model frame_only_id sample_pandas]
  by (simp add: sample_model_def labels_def missing_def frame_without_id_def frame_only_id_def)

section \<open>The batch size guard\<close>

text \<open>
  C6. When the uploaded file parses to a frame with more rows than the configured
  maximum, \<^verbatim>\<open>predict_batch\<close> raises the \<open>PredictionError\<close> whose message holds the
  observed row count and the limit. The outcome is the same for every model, every
  estimator and every content of the frame, so no validation rule and no scoring has a
  part in it, and no record is returned.
\<close>

theorem batch_too_large:
  assumes "read_input_file rd file_bytes filename = Inr dataframe"
    and "max_batch_rows < int (nrows dataframe)"
  shows "predict_batch rd pd m max_batch_rows file_bytes filename =
     Inl (PredictionError (''Batch size '' @ str_int (int (nrows dataframe)) @ '' exceeds limit of ''
        @ str_int max_batch_rows @ '' rows.''))"
  using assms by (simp add: predict_batch_def)

theorem batch_too_large_witness:
  "read_input_file sample_reader '''' ''batch.csv'' = Inr big_frame \<and> (60000::int) < int (nrows big_frame) \<and>
   predict_batch sample_reader sample_pandas sample_model 60000 '''' ''batch.csv'' =
     Inl (PredictionError ''Batch size 60001 exceeds limit of 60000 rows.'')"
proof -
  have r: "read_input_file sample_reader '''' ''batch.csv'' = Inr big_frame"
    by (simp add: read_input_file_def sample_reader_def lower_char_def)
  have n: "(60000::int) < int (nrows big_frame)" by (simp add: big_frame_def)
  have s: "str_int 60001 = ''60001''" "str_int 60000 = ''60000''"
    by (simp_all add: str_int_def str_nat.simps digit_char_def)
  have nr: "int (nrows big_frame) = 60001" by (simp add: big_frame_def)
  show ?thesis
    using batch_too_large [OF r n, of sample_pandas sample_model] r n by (simp add: nr s)
qed

section \<open>Evaluating the samples\<close>

lemmas eval_defs = prepare_features_def sample_pandas_def sample_model_def labels_def missing_def getitem_def
    to_numeric_def astype_float64_def startswith_def setitem_def has_null_def blank_def is_space_def
    sample_parse_def is_digit_def digits_value_def str_int_def str_nat.simps digit_char_def

lemma prepare_sample: "prepare_features sample_pandas sample_model sample_frame = Inr (sample_features, [''1001''])"
  by (simp add: eval_defs sample_frame_def sample_features_def)

lemma score_sample:
  "score sample_pandas sample_model sample_frame = Inr [\<lparr>rec_id = ''1001'', probability = Fin 0.73, is_default = True\<rparr>]"
  unfolding score_def prepare_sample
  by (simp add: predict_proba_prepared_def column1_def sample_model_def binary_estimator_def sample_features_def)

lemma init_sample: "init sample_settings sample_artifacts = Inr sample_model"
  by (simp add: init_def sample_settings_def sample_artifacts_def sample_model_def)

section \<open>The default flag\<close>

lemma score_Inr_flag:
  assumes "score pd m fr = Inr recs" and "r \<in> set recs"
  shows "is_default r = float_ge (probability r) (threshold m)"
  using assms unfolding score_def
  by (auto split: sum.splits prod.splits)

text \<open>
  C1. For a model the constructor has built, the threshold is the float of the metadata's
  \<^verbatim>\<open>threshold\<close> entry read at load time, and every record that \<^verbatim>\<open>score\<close> returns, for
  whatever frame, carries \<^verbatim>\<open>is_default\<close> equal to the non-strict comparison of its
  probability with that one threshold. Scoring returns records only: the model, and with
  it the threshold, is the same for every call.
\<close>

theorem is_default_threshold:
  assumes "init st art = Inr m"
  shows "(\<exists>md t. metadata_file art = Some md \<and> meta_threshold md = Some t \<and> threshold m = to_float t) \<and>
    (\<forall>fr recs. score pd m fr = Inr recs \<longrightarrow>
       (\<forall>r \<in> set recs. is_default r = float_ge (probability r) (threshold m)))"
proof
  show "\<exists>md t. metadata_file art = Some md \<and> meta_threshold md = Some t \<and> threshold m = to_float t"
    using assms unfolding init_def by (auto split: option.splits)
  show "\<forall>fr recs. score pd m fr = Inr recs \<longrightarrow>
       (\<forall>r \<in> set recs. is_default r = float_ge (probability r) (threshold m))"
    using score_Inr_flag by blast
qed

theorem is_default_threshold_witness:
  "init sample_settings sample_artifacts = Inr sample_model \<and>
   threshold sample_model = to_float (NFloat (Fin 0.5)) \<and>
   score sample_pandas sample_model sample_frame
     = Inr [\<lparr>rec_id = ''1001'', probability = Fin 0.73, is_default = True\<rparr>] \<and>
   is_default \<lparr>rec_id = ''1001'', probability = Fin 0.73, is_default = True\<rparr>
     = float_ge (Fin 0.73) (threshold sample_model)"
  using is_default_threshold [OF init_sample, of sample_pandas] init_sample score_sample
  by (simp add: sample_model_def)

section \<open>Blank cells in numeric columns\<close>

text \<open>
  C4. In the scenario of the specification (row 2 of the batch has an empty \<^verbatim>\<open>AGE\<close>,
  declared \<^verbatim>\<open>int\<close>), and with a whitespace-only \<^verbatim>\<open>AGE\<close> as well, the request fails and no record is returned, but the failure is
  the cast error of \<^verbatim>\<open>astype("int64")\<close> on the NaN that the blank cell has become, raised
  inside the dtype loop before the null check of line 154 is reached; it is not the
  missing-values \<open>ValidationError\<close>.
\<close>

theorem blank_int_cell_raises_cast_error:
  "score sample_pandas sample_model frame_blank_age = Inl IntCastingNaNError \<and>
   score sample_pandas sample_model frame_blank_age \<noteq> Inl (ValidationError ''Input payload contains missing values.'') \<and>
   score sample_pandas sample_model frame_space_age = Inl IntCastingNaNError"
  by (simp add: score_def eval_defs frame_blank_age_def frame_space_age_def)

text \<open>The float branch does reach the null check: a blank \<^verbatim>\<open>LIMIT_BAL\<close> is reported as missing.\<close>

lemma blank_float_cell_missing_values:
  "score sample_pandas sample_model frame_blank_limit = Inl (ValidationError ''Input payload contains missing values.'')"
  by (simp add: score_def eval_defs frame_blank_limit_def)

section \<open>The estimator's output\<close>

text \<open>
  C7. \<^verbatim>\<open>_predict_proba\<close> has no check of the number of columns: with an estimator of
  three classes scoring succeeds and returns column 1 of the array.
\<close>

theorem three_class_estimator_scored:
  "score sample_pandas (sample_model\<lparr>estimator := three_class_estimator\<rparr>) sample_frame =
     Inr [\<lparr>rec_id = ''1001'', probability = Fin 0.3, is_default = False\<rparr>]"
proof -
  have "prepare_features sample_pandas (sample_model\<lparr>estimator := three_class_estimator\<rparr>) sample_frame
      = Inr (sample_features, [''1001''])"
    by (simp add: eval_defs sample_frame_def sample_features_def)
  then show ?thesis
    unfolding score_def
    by (simp add: predict_proba_prepared_def column1_def sample_model_def three_class_estimator_def sample_features_def)
qed

text \<open>With a single column the failure is numpy's \<^verbatim>\<open>IndexError\<close>, not a \<open>ModelError\<close>.\<close>

lemma one_column_estimator_index_error:
  "score sample_pandas (sample_model\<lparr>estimator := one_column_estimator\<rparr>) sample_frame = Inl IndexError"
proof -
  have "prepare_features sample_pandas (sample_model\<lparr>estimator := one_column_estimator\<rparr>) sample_frame
      = Inr (sample_features, [''1001''])"
    by (simp add: eval_defs sample_frame_def sample_features_def)
  then show ?thesis
    unfolding score_def
    by (simp add: predict_proba_prepared_def column1_def sample_model_def one_column_estimator_def sample_features_def)
qed

section \<open>Rows in, rows out\<close>

lemma getitem_length: "wf_frame fr \<Longrightarrow> getitem fr c = Inr cells \<Longrightarrow> length cells = nrows fr"
proof -
  assume wf: "wf_frame fr" and g: "getitem fr c = Inr cells"
  from g have "map_of (columns fr) c = Some cells"
    by (simp add: getitem_def split: option.splits)
  then have "(c, cells) \<in> set (columns fr)" by (rule map_of_SomeD)
  with wf show ?thesis by (fastforce simp: wf_frame_def list_all_iff)
qed

lemma predict_proba_prepared_length:
  "predict_proba_prepared m features = Inr ps \<Longrightarrow> length ps = nrows features"
  unfolding predict_proba_prepared_def by (auto split: sum.splits if_splits)

lemma predict_proba_prepared_Inr:
  "predict_proba_prepared m features = Inr ps \<longleftrightarrow>
     (\<exists>P. estimator m features = Inr P \<and> 1 < shape_cols P \<and> shape_rows P = nrows features \<and>
          ps = map (\<lambda>i. entry P i 1) [0..<nrows features])"
  unfolding predict_proba_prepared_def column1_def by (auto split: sum.splits if_splits)

lemma prepare_features_lengths:
  assumes "wf_frame fr" and "prepare_features pd m fr = Inr (features, identifiers)"
  shows "length identifiers = nrows fr \<and> nrows features = nrows fr"
  using prepare_features_InrD [OF assms(2)] getitem_length [OF assms(1)] by auto

lemma wf_sample_frame: "wf_frame sample_frame"
  by (simp add: wf_frame_def sample_frame_def labels_def)

lemma wf_frame_only_id: "wf_frame frame_only_id"
  by (simp add: wf_frame_def frame_only_id_def labels_def)

lemma prepare_only_id:
  "prepare_features sample_pandas sample_model frame_only_id = Inl (ValidationError ''Missing columns: LIMIT_BAL, AGE.'')"
  by (simp add: eval_defs frame_only_id_def)

lemma wf_sample_batch: "wf_frame sample_batch"
  by (simp add: wf_frame_def sample_batch_def labels_def)

lemma prepare_batch:
  "prepare_features sample_pandas (sample_model\<lparr>estimator := age_estimator\<rparr>) sample_batch
     = Inr (sample_batch_features, [''1002'', ''1001''])"
  by (simp add: eval_defs sample_batch_def sample_batch_features_def)

text \<open>
  C2. For a well-formed frame that passes validation, \<^verbatim>\<open>score\<close> returns records exactly
  when the estimator returns an array with at least two columns and as many rows as the
  frame, and then the result is row \<open>i\<close> of the input for every \<open>i\<close> below the row
  count, in this order: the identifier of input row \<open>i\<close> as a string, with the
  probability of row \<open>i\<close> of the array. So there is one record per input row, in the
  input's order, and nothing is merged or dropped.
\<close>

theorem score_one_record_per_row:
  assumes "wf_frame fr" and "prepare_features pd m fr = Inr (features, identifiers)"
  shows "\<exists>ids. getitem fr (id_column m) = Inr ids \<and> length ids = nrows fr \<and>
     (\<forall>recs. score pd m fr = Inr recs \<longleftrightarrow>
        (\<exists>P. estimator m features = Inr P \<and> 1 < shape_cols P \<and> shape_rows P = nrows fr \<and>
           recs = map (\<lambda>i. \<lparr>rec_id = astype_str pd (ids ! i), probability = entry P i 1,
                              is_default = float_ge (entry P i 1) (threshold m)\<rparr>) [0..<nrows fr]))"
proof -
  from prepare_features_InrD [OF assms(2)] obtain ids where
    ids: "getitem fr (id_column m) = Inr ids" "identifiers = map (astype_str pd) ids"
    and nr: "nrows features = nrows fr" by auto
  have len: "length ids = nrows fr" using getitem_length [OF assms(1) ids(1)] .
  have z: "map (\<lambda>(i, p). \<lparr>rec_id = i, probability = p, is_default = float_ge p (threshold m)\<rparr>)
          (zip (map (astype_str pd) ids) (map (\<lambda>i. entry P i 1) [0..<nrows fr]))
      = map (\<lambda>i. \<lparr>rec_id = astype_str pd (ids ! i), probability = entry P i 1,
                   is_default = float_ge (entry P i 1) (threshold m)\<rparr>) [0..<nrows fr]" for P
    by (rule nth_equalityI) (simp_all add: len)
  have "score pd m fr = Inr recs \<longleftrightarrow>
        (\<exists>P. estimator m features = Inr P \<and> 1 < shape_cols P \<and> shape_rows P = nrows fr \<and>
           recs = map (\<lambda>i. \<lparr>rec_id = astype_str pd (ids ! i), probability = entry P i 1,
                              is_default = float_ge (entry P i 1) (threshold m)\<rparr>) [0..<nrows fr])" for recs
  proof (cases "predict_proba_prepared m features")
    case (Inl e)
    then have "\<not> (\<exists>ps. predict_proba_prepared m features = Inr ps)" by simp
    then have "\<not> (\<exists>P. estimator m features = Inr P \<and> 1 < shape_cols P \<and> shape_rows P = nrows features)"
      unfolding predict_proba_prepared_Inr by blast
    with Inl assms(2) nr show ?thesis by (auto simp: score_def)
  next
    case (Inr ps)
    then obtain P where P: "estimator m features = Inr P" "1 < shape_cols P" "shape_rows P = nrows features"
      "ps = map (\<lambda>i. entry P i 1) [0..<nrows features]"
      unfolding predict_proba_prepared_Inr by blast
    with Inr assms(2) ids(2) nr z [of P] show ?thesis by (auto simp: score_def)
  qed
  with ids(1) len show ?thesis by blast
qed

theorem score_one_record_per_row_witness:
  "wf_frame sample_batch \<and>
   prepare_features sample_pandas (sample_model\<lparr>estimator := age_estimator\<rparr>) sample_batch
     = Inr (sample_batch_features, [''1002'', ''1001'']) \<and>
   getitem sample_batch ''ID'' = Inr [CInt 1002, CInt 1001] \<and>
   score sample_pandas (sample_model\<lparr>estimator := age_estimator\<rparr>) sample_batch
     = Inr [\<lparr>rec_id = ''1002'', probability = Fin 0.25, is_default = False\<rparr>,
            \<lparr>rec_id = ''1001'', probability = Fin 0.73, is_default = True\<rparr>]"
proof -
  have g: "getitem sample_batch (id_column (sample_model\<lparr>estimator := age_estimator\<rparr>)) = Inr [CInt 1002, CInt 1001]"
    by (simp add: getitem_def sample_batch_def sample_model_def)
  have n: "nrows sample_batch = 2" by (simp add: sample_batch_def)
  have u: "[0..<2] = [0, Suc 0]" by (simp add: upt_rec numeral_2_eq_2)
  have s: "str_int 1002 = ''1002''" "str_int 1001 = ''1001''"
    by (simp_all add: str_int_def str_nat.simps digit_char_def)
  have e: "estimator (sample_model\<lparr>estimator := age_estimator\<rparr>) sample_batch_features
      = age_estimator sample_batch_features" by simp
  have t: "threshold (sample_model\<lparr>estimator := age_estimator\<rparr>) = Fin 0.5"
    by (simp add: sample_model_def)
  from score_one_record_per_row [OF wf_sample_batch prepare_batch]
  have "score sample_pandas (sample_model\<lparr>estimator := age_estimator\<rparr>) sample_batch
     = Inr [\<lparr>rec_id = ''1002'', probability = Fin 0.25, is_default = False\<rparr>,
            \<lparr>rec_id = ''1001'', probability = Fin 0.73, is_default = True\<rparr>]"
    unfolding g e t n u by (simp add: age_estimator_def sample_batch_features_def s)
  with wf_sample_batch prepare_batch g show ?thesis by (simp add: sample_model_def)
qed

section \<open>The two public methods\<close>

text \<open>
  C9. On a well-formed frame \<^verbatim>\<open>predict_proba\<close> and \<^verbatim>\<open>score\<close> agree: when validation
  fails both raise that error, and in every case \<^verbatim>\<open>predict_proba\<close> returns what \<^verbatim>\<open>score\<close>
  returns, reduced to the probability of each record in the same order (or the same
  error). The estimator is a function of the features, so both calls see the same array.
\<close>

theorem predict_proba_agrees_with_score:
  assumes "wf_frame fr"
  shows "(\<forall>e. prepare_features pd m fr = Inl e \<longrightarrow> predict_proba pd m fr = Inl e \<and> score pd m fr = Inl e) \<and>
    predict_proba pd m fr = (case score pd m fr of Inl e \<Rightarrow> Inl e | Inr recs \<Rightarrow> Inr (map probability recs))"
proof (cases "prepare_features pd m fr")
  case (Inl e)
  then show ?thesis by (simp add: predict_proba_def score_def)
next
  case (Inr res)
  obtain features identifiers where res: "res = (features, identifiers)" by (cases res)
  with Inr have p: "prepare_features pd m fr = Inr (features, identifiers)" by simp
  from prepare_features_lengths [OF assms p]
  have len: "length identifiers = nrows fr" "nrows features = nrows fr" by auto
  show ?thesis
  proof (cases "predict_proba_prepared m features")
    case (Inl e)
    with p show ?thesis by (simp add: predict_proba_def score_def)
  next
    case (Inr ps)
    from predict_proba_prepared_length [OF Inr] len have "length identifiers = length ps" by simp
    then have "map (probability \<circ> (\<lambda>(i, p). \<lparr>rec_id = i, probability = p, is_default = float_ge p (threshold m)\<rparr>))
        (zip identifiers ps) = ps"
      by (induction identifiers ps rule: list_induct2) auto
    with p Inr show ?thesis by (simp add: predict_proba_def score_def)
  qed
qed

theorem predict_proba_agrees_with_score_witness:
  "wf_frame sample_frame \<and> wf_frame frame_only_id \<and>
   prepare_features sample_pandas sample_model frame_only_id = Inl (ValidationError ''Missing columns: LIMIT_BAL, AGE.'') \<and>
   predict_proba sample_pandas sample_model frame_only_id = Inl (ValidationError ''Missing columns: LIMIT_BAL, AGE.'') \<and>
   score sample_pandas sample_model frame_only_id = Inl (ValidationError ''Missing columns: LIMIT_BAL, AGE.'') \<and>
   predict_proba sample_pandas sample_model sample_frame = Inr [Fin 0.73] \<and>
   score sample_pandas sample_model sample_frame
     = Inr [\<lparr>rec_id = ''1001'', probability = Fin 0.73, is_default = True\<rparr>]"
  using predict_proba_agrees_with_score [OF wf_frame_only_id, of sample_pandas sample_model]
    predict_proba_agrees_with_score [OF wf_sample_frame, of sample_pandas sample_model]
    wf_sample_frame wf_frame_only_id prepare_only_id score_sample
  by simp

section \<open>The prepared feature frame\<close>

lemma setitem_lengths:
  "list_all (\<lambda>col. length (snd col) = n) cols \<Longrightarrow> length cells = n \<Longrightarrow>
   list_all (\<lambda>col. length (snd col) = n) (setitem cols column cells)"
  by (induction cols) (auto simp: setitem_def)

lemma map_of_lengths:
  "list_all (\<lambda>col. length (snd col) = n) cols \<Longrightarrow> map_of cols c = Some cells \<Longrightarrow> length cells = n"
  by (fastforce simp: list_all_iff dest: map_of_SomeD)

lemma coerce_lengths:
  "coerce pd dts features = Inr features' \<Longrightarrow> list_all (\<lambda>col. length (snd col) = n) features \<Longrightarrow>
   list_all (\<lambda>col. length (snd col) = n) features'"
proof (induction pd dts features rule: coerce.induct)
  case (1 pd features)
  then show ?case by simp
next
  case (2 pd column dtype rest features)
  show ?case
  proof (cases "map_of features column")
    case None
    with 2 show ?thesis by simp
  next
    case (Some cells)
    from map_of_lengths [OF "2.prems"(2) Some] have len: "length cells = n" .
    show ?thesis
    proof (cases "startswith dtype ''int''")
      case True
      with "2.prems"(1) Some obtain nums cells' where
        c: "to_numeric pd cells = Inr nums" "map_err astype_int64 nums = Inr cells'"
          "coerce pd rest (setitem features column cells') = Inr features'"
        by (auto split: sum.splits)
      then have "length cells' = n"
        using len map_err_length unfolding to_numeric_def by metis
      from "2.IH"(2) [OF Some True c(1) c(2) c(3) setitem_lengths [OF "2.prems"(2) this]]
      show ?thesis .
    next
      case notint: False
      show ?thesis
      proof (cases "startswith dtype ''float''")
        case True
        with "2.prems"(1) Some notint obtain nums where
          c: "to_numeric pd cells = Inr nums"
            "coerce pd rest (setitem features column (map astype_float64 nums)) = Inr features'"
          by (auto split: sum.splits)
        then have "length (map astype_float64 nums) = n"
          using len map_err_length unfolding to_numeric_def by fastforce
        from "2.IH"(3) [OF Some notint True c(1) c(2) setitem_lengths [OF "2.prems"(2) this]]
        show ?thesis .
      next
        case False
        with "2.prems"(1) Some notint have cat: "dtype = ''category''"
          and c: "coerce pd rest (setitem features column cells) = Inr features'"
          by (auto split: if_splits)
        from "2.IH"(4) [OF Some notint False cat c setitem_lengths [OF "2.prems"(2) len]]
        show ?thesis .
      qed
    qed
  qed
qed

lemma getitems_lengths:
  "wf_frame fr \<Longrightarrow> getitems fr cs = Inr sel \<Longrightarrow> list_all (\<lambda>col. length (snd col) = nrows fr) sel"
proof (induction cs arbitrary: sel)
  case Nil
  then show ?case by simp
next
  case (Cons c cs)
  then show ?case by (auto split: sum.splits dest: getitem_length)
qed

lemma getitem_append_other:
  "c \<noteq> l \<Longrightarrow> getitem (fr\<lparr>columns := columns fr @ [(l, cells)]\<rparr>) c = getitem fr c"
  by (simp add: getitem_def map_add_def split: option.splits)

lemma getitems_append_other:
  "l \<notin> set cs \<Longrightarrow> getitems (fr\<lparr>columns := columns fr @ [(l, cells)]\<rparr>) cs = getitems fr cs"
  by (induction cs) (auto simp: getitem_append_other split: sum.splits)

lemma prepare_features_extra_column:
  assumes "l \<notin> set (expected_columns m)" and "l \<noteq> id_column m" and "l \<noteq> ''default''"
  shows "prepare_features pd m (fr\<lparr>columns := columns fr @ [(l, cells)]\<rparr>) = prepare_features pd m fr"
proof -
  let ?fr = "fr\<lparr>columns := columns fr @ [(l, cells)]\<rparr>"
  have lab: "set (labels ?fr) = insert l (set (labels fr))" by (simp add: labels_def)
  have mis: "missing m ?fr = missing m fr"
    unfolding missing_def lab using assms(1) by (intro filter_cong) auto
  have gs: "getitems ?fr (expected_columns m) = getitems fr (expected_columns m)"
    using assms(1) by (rule getitems_append_other)
  have g: "getitem ?fr (id_column m) = getitem fr (id_column m)"
    using assms(2) by (simp add: getitem_append_other)
  have n: "nrows ?fr = nrows fr" by simp
  show ?thesis
    unfolding prepare_features_def lab mis gs g n using assms(2,3) by auto
qed

text \<open>
  C8. When validation accepts a payload, the feature frame it returns, which is the
  frame \<^verbatim>\<open>score\<close> and \<^verbatim>\<open>predict_proba\<close> hand to the estimator, has exactly the
  expected columns in the signature's order, no null cell, the row count of the payload
  and, for a well-formed payload, columns of that length. None of the payload's extra
  columns is in it, and one more column that is neither expected, nor the identifier,
  nor the label column changes nothing: the payload is accepted with the same result.
\<close>

theorem features_frame_exact:
  assumes "prepare_features pd m fr = Inr (features, identifiers)"
  shows "labels features = expected_columns m
    \<and> (\<forall>col \<in> set (columns features). \<forall>c \<in> set (snd col). \<not> isnull c)
    \<and> nrows features = nrows fr
    \<and> (wf_frame fr \<longrightarrow> list_all (\<lambda>col. length (snd col) = nrows features) (columns features))
    \<and> (\<forall>l \<in> set (extra m fr). l \<notin> set (labels features))
    \<and> (\<forall>l cells. l \<notin> set (expected_columns m) \<and> l \<noteq> id_column m \<and> l \<noteq> ''default'' \<longrightarrow>
          prepare_features pd m (fr\<lparr>columns := columns fr @ [(l, cells)]\<rparr>) = Inr (features, identifiers))"
proof -
  from prepare_features_InrD [OF assms] obtain sel cols where
    sel: "getitems fr (expected_columns m) = Inr sel"
    and co: "coerce pd (dtype_map m) (map (\<lambda>(l, cells). (l, map replace_blank cells)) sel) = Inr cols"
    and nn: "\<not> has_null cols"
    and f: "features = \<lparr>nrows = nrows fr, columns = cols\<rparr>" by auto
  have "map fst cols = map fst (map (\<lambda>(l, cells). (l, map replace_blank cells)) sel)"
    using co by (rule coerce_labels)
  also have "\<dots> = map fst sel" by (induction sel) auto
  also have "\<dots> = expected_columns m" using sel by (rule getitems_labels)
  finally have lab: "labels features = expected_columns m" by (simp add: labels_def f)
  have nulls: "\<forall>col \<in> set (columns features). \<forall>c \<in> set (snd col). \<not> isnull c"
    using nn by (auto simp: has_null_def list_ex_iff f)
  have len: "list_all (\<lambda>col. length (snd col) = nrows features) (columns features)" if "wf_frame fr"
  proof -
    have "list_all (\<lambda>col. length (snd col) = nrows fr) sel"
      using that sel by (rule getitems_lengths)
    then have "list_all (\<lambda>col. length (snd col) = nrows fr) (map (\<lambda>(l, cells). (l, map replace_blank cells)) sel)"
      by (induction sel) auto
    with co show ?thesis by (simp add: f coerce_lengths)
  qed
  have ex: "\<forall>l \<in> set (extra m fr). l \<notin> set (labels features)"
    by (simp add: lab extra_def)
  from lab nulls len ex assms show ?thesis
    by (simp add: f prepare_features_extra_column)
qed

theorem features_frame_exact_witness:
  "prepare_features sample_pandas sample_model sample_frame = Inr (sample_features, [''1001'']) \<and>
   labels sample_features = expected_columns sample_model \<and>
   wf_frame sample_frame \<and>
   ''NOTE'' \<notin> set (expected_columns sample_model) \<and> ''NOTE'' \<noteq> id_column sample_model \<and>
   extra sample_model frame_with_extra = [''NOTE''] \<and>
   prepare_features sample_pandas sample_model frame_with_extra = Inr (sample_features, [''1001''])"
proof -
  have e: "extra sample_model frame_with_extra = [''NOTE'']"
    by (simp add: extra_def frame_with_extra_def sample_frame_def sample_model_def labels_def)
  have n: "''NOTE'' \<notin> set (expected_columns sample_model) \<and> ''NOTE'' \<noteq> id_column sample_model
      \<and> ''NOTE'' \<noteq> ''default''"
    by (simp add: sample_model_def)
  from features_frame_exact [OF prepare_sample] n wf_sample_frame prepare_sample e
  show ?thesis unfolding frame_with_extra_def by simp
qed

section \<open>Blank identifiers\<close>

lemma map_of_setitem:
  "map_of (setitem cols c cells) k = (if k = c then map_option (\<lambda>_. cells) (map_of cols k) else map_of cols k)"
  by (induction cols) (auto simp: setitem_def)

lemma getitems_setitem_other:
  "c \<notin> set cs \<Longrightarrow> getitems (fr\<lparr>columns := setitem (columns fr) c cells\<rparr>) cs = getitems fr cs"
  by (induction cs) (auto simp: getitem_def map_of_setitem split: sum.splits)

text \<open>
  C10. The blank-to-null replacement works on the copy of the expected columns only; the
  identifiers are read from the raw frame. So, when the identifier column is not itself
  an expected feature column, a payload that is scored stays scored when its identifiers
  are replaced by any strings, empty and whitespace-only ones included: the identifier
  check passes, and the records are the same except that each carries the new string,
  unchanged, as its identifier.
\<close>

theorem blank_identifier_kept:
  assumes "wf_frame fr" and "id_column m \<notin> set (expected_columns m)"
    and "score pd m fr = Inr recs" and "length ss = nrows fr"
  shows "score pd m (fr\<lparr>columns := setitem (columns fr) (id_column m) (map CStr ss)\<rparr>)
     = Inr (map (\<lambda>(r, s). r\<lparr>rec_id := s\<rparr>) (zip recs ss))"
proof -
  let ?fr = "fr\<lparr>columns := setitem (columns fr) (id_column m) (map CStr ss)\<rparr>"
  from assms(3) obtain features identifiers ps where
    p: "prepare_features pd m fr = Inr (features, identifiers)"
    and ps: "predict_proba_prepared m features = Inr ps"
    and recs: "recs = map (\<lambda>(i, p). \<lparr>rec_id = i, probability = p, is_default = float_ge p (threshold m)\<rparr>)
        (zip identifiers ps)"
    unfolding score_def by (auto split: sum.splits prod.splits)
  from prepare_features_InrD [OF p] obtain sel cols ids where
    d: "id_column m \<in> set (labels fr)" "''default'' \<notin> set (labels fr)" "missing m fr = []"
      "getitems fr (expected_columns m) = Inr sel"
      "coerce pd (dtype_map m) (map (\<lambda>(l, cells). (l, map replace_blank cells)) sel) = Inr cols"
      "\<not> has_null cols" "getitem fr (id_column m) = Inr ids"
      "features = \<lparr>nrows = nrows fr, columns = cols\<rparr>" by auto
  have lab: "labels ?fr = labels fr" by (simp add: labels_def labels_setitem)
  have mis: "missing m ?fr = missing m fr" by (simp add: missing_def lab)
  have gs: "getitems ?fr (expected_columns m) = Inr sel"
    using getitems_setitem_other [OF assms(2)] d(4) by simp
  have g: "getitem ?fr (id_column m) = Inr (map CStr ss)"
    using d(7) by (simp add: getitem_def map_of_setitem split: option.splits)
  have nonnull: "\<not> list_ex isnull (map CStr ss)" by (simp add: list_ex_iff)
  have str: "map (astype_str pd) (map CStr ss) = ss" by (induction ss) auto
  have p': "prepare_features pd m ?fr = Inr (features, ss)"
    unfolding prepare_features_def lab mis gs g using d nonnull str by simp
  from prepare_features_lengths [OF assms(1) p] predict_proba_prepared_length [OF ps]
  have len: "length identifiers = nrows fr" "length ps = nrows fr" by auto
  have "map (\<lambda>(i, p). \<lparr>rec_id = i, probability = p, is_default = float_ge p (threshold m)\<rparr>) (zip ss ps)
      = map (\<lambda>(r, s). r\<lparr>rec_id := s\<rparr>) (zip recs ss)"
    unfolding recs by (rule nth_equalityI) (simp_all add: len assms(4))
  with p' ps show ?thesis by (simp add: score_def)
qed

theorem blank_identifier_kept_witness:
  "wf_frame sample_frame \<and> id_column sample_model \<notin> set (expected_columns sample_model) \<and>
   score sample_pandas sample_model sample_frame
     = Inr [\<lparr>rec_id = ''1001'', probability = Fin 0.73, is_default = True\<rparr>] \<and>
   length [''''] = nrows sample_frame \<and>
   score sample_pandas sample_model
     \<lparr>nrows = 1, columns = [(''ID'', [CStr '''']), (''LIMIT_BAL'', [CStr ''200000'']), (''AGE'', [CStr ''35''])]\<rparr>
     = Inr [\<lparr>rec_id = '''', probability = Fin 0.73, is_default = True\<rparr>]"
proof -
  have i: "id_column sample_model \<notin> set (expected_columns sample_model)"
    by (simp add: sample_model_def)
  have l: "length [''''] = nrows sample_frame" by (simp add: sample_frame_def)
  have f: "sample_frame\<lparr>columns := setitem (columns sample_frame) (id_column sample_model) (map CStr [''''])\<rparr>
     = \<lparr>nrows = 1, columns = [(''ID'', [CStr '''']), (''LIMIT_BAL'', [CStr ''200000'']), (''AGE'', [CStr ''35''])]\<rparr>"
    by (simp add: sample_frame_def sample_model_def setitem_def)
  from blank_identifier_kept [OF wf_sample_frame i score_sample l] wf_sample_frame i score_sample l
  show ?thesis unfolding f by simp
qed

section \<open>The dtype loop\<close>

lemma setitem_dom: "fst ` set (setitem cols c cells) = fst ` set cols"
  using labels_setitem [of cols c cells] by (metis list.set_map)

lemma coerce_append:
  "coerce pd (xs @ ys) f = (case coerce pd xs f of Inl e \<Rightarrow> Inl e | Inr f' \<Rightarrow> coerce pd ys f')"
  by (induction pd xs f rule: coerce.induct) (auto split: option.splits sum.splits)

lemma coerce_untouched:
  "coerce pd dts f = Inr f' \<Longrightarrow> c \<notin> fst ` set dts \<Longrightarrow> map_of f' c = map_of f c"
  by (induction pd dts f rule: coerce.induct)
    (auto split: option.splits sum.splits if_splits simp: map_of_setitem)

lemma getitems_map_of:
  "getitems fr cs = Inr sel \<Longrightarrow> c \<in> set cs \<Longrightarrow> getitem fr c = Inr raw \<Longrightarrow> map_of sel c = Some raw"
  by (induction cs arbitrary: sel) (auto split: sum.splits)

lemma coerce_filter:
  "coerce pd (filter (\<lambda>(c, d). c \<in> fst ` set f) dts) f = coerce pd dts f"
proof (induction pd dts f rule: coerce.induct)
  case (1 pd features)
  then show ?case by simp
next
  case (2 pd column dtype rest features)
  show ?case
  proof (cases "map_of features column")
    case None
    then have "column \<notin> fst ` set features" by (simp add: map_of_eq_None_iff)
    with None "2.IH"(1) show ?thesis by simp
  next
    case (Some cells)
    then have "column \<in> fst ` set features" using map_of_eq_None_iff [of features column] by auto
    with Some 2 show ?thesis
      by (auto split: sum.splits simp: setitem_dom)
  qed
qed

lemma to_numeric_unparsable:
  "CStr s \<in> set cells \<Longrightarrow> parse_numeric pd s = None \<Longrightarrow> \<exists>e. to_numeric pd cells = Inl e"
  unfolding to_numeric_def by (rule map_err_Inl [where x = "CStr s"]) simp_all

lemma blanked_labels: "map fst (map (\<lambda>(l, cells). (l, map replace_blank cells)) sel) = map fst sel"
  by (induction sel) auto

text \<open>
  C5, as the code has it. The claim as stated fails in three ways: a dtype declared for
  a column that is not an expected feature column is skipped, whatever it is; an
  unparsable string makes \<^verbatim>\<open>pd.to_numeric\<close> raise its own error, which is no
  \<open>ValidationError\<close> and names the string, not the column; a number with a fractional
  part in an \<^verbatim>\<open>int\<close> column is truncated by the cast, not rejected.
\<close>

theorem dtype_claim_counterexample:
  "(''ID'', ''object'') \<in> set (dtype_map model_declaring_id) \<and>
   \<not> startswith ''object'' ''int'' \<and> \<not> startswith ''object'' ''float'' \<and> ''object'' \<noteq> ''category'' \<and>
   prepare_features sample_pandas model_declaring_id sample_frame = Inr (sample_features, [''1001'']) \<and>
   parse_numeric sample_pandas ''abc'' = None \<and>
   prepare_features sample_pandas sample_model frame_unparsable_age = Inl (UnableToParseString ''abc'') \<and>
   prepare_features sample_pandas sample_model frame_fractional_age = Inr (sample_features, [''1001''])"
  by (simp add: eval_defs model_declaring_id_def sample_frame_def sample_features_def
      frame_unparsable_age_def frame_fractional_age_def)

text \<open>
  C5, amended. For a payload that passes the presence checks, take a declaration of the
  dtype map for an expected column, not declared before, such that all declarations
  before it have been coerced without error. If its dtype is none of \<^verbatim>\<open>int*\<close>,
  \<^verbatim>\<open>float*\<close>, \<^verbatim>\<open>category\<close>, validation fails with the \<open>ValidationError\<close> that names the
  dtype and the column. If its dtype is \<^verbatim>\<open>int*\<close> or \<^verbatim>\<open>float*\<close> and the column holds a
  non-blank string that the numeric parser rejects, validation fails and nothing is
  returned. Declarations for columns that are not expected have no effect at all.
\<close>

theorem dtype_loop_first_failure:
  assumes "id_column m \<in> set (labels fr)" and "''default'' \<notin> set (labels fr)" and "missing m fr = []"
    and "getitems fr (expected_columns m) = Inr selected"
    and "dtype_map m = before @ (column, dtype) # rest"
    and "column \<notin> fst ` set before"
    and "column \<in> set (expected_columns m)"
    and "coerce pd before (map (\<lambda>(l, cells). (l, map replace_blank cells)) selected) = Inr features"
  shows
   "(\<not> startswith dtype ''int'' \<and> \<not> startswith dtype ''float'' \<and> dtype \<noteq> ''category'' \<longrightarrow>
       prepare_features pd m fr = Inl (ValidationError
         (''Unsupported dtype '' @ quoted dtype @ '' for column '' @ quoted column @ ''.'')))
    \<and> ((startswith dtype ''int'' \<or> startswith dtype ''float'') \<and>
        (\<exists>raw s. getitem fr column = Inr raw \<and> CStr s \<in> set raw \<and> \<not> blank s \<and> parse_numeric pd s = None) \<longrightarrow>
        (\<exists>e. prepare_features pd m fr = Inl e))
    \<and> prepare_features pd (m\<lparr>dtype_map := filter (\<lambda>(c, d). c \<in> set (expected_columns m)) (dtype_map m)\<rparr>) fr
        = prepare_features pd m fr"
proof -
  let ?start = "map (\<lambda>(l, cells). (l, map replace_blank cells)) selected"
  have start_labels: "map fst ?start = expected_columns m"
    using getitems_labels [OF assms(4)] by (simp only: blanked_labels)
  have split: "coerce pd (dtype_map m) ?start = coerce pd ((column, dtype) # rest) features"
    unfolding assms(5) coerce_append assms(8) by simp
  have pf: "prepare_features pd m fr =
      (case coerce pd ((column, dtype) # rest) features of
         Inl e \<Rightarrow> Inl e
       | Inr cols \<Rightarrow>
           if has_null cols then Inl (ValidationError ''Input payload contains missing values.'')
           else (case getitem fr (id_column m) of
                   Inl e \<Rightarrow> Inl e
                 | Inr identifiers \<Rightarrow>
                     if list_ex isnull identifiers
                     then Inl (ValidationError ''Identifier column contains missing values.'')
                     else Inr (\<lparr>nrows = nrows fr, columns = cols\<rparr>, map (astype_str pd) identifiers)))"
    unfolding prepare_features_def using assms(1,2,3,4) by (simp add: split)
  have "map fst features = expected_columns m"
    using coerce_labels [OF assms(8)] start_labels by simp
  with assms(7) have "column \<in> fst ` set features" by (metis list.set_map)
  then obtain cells where cells: "map_of features column = Some cells"
    using map_of_eq_None_iff [of features column] by auto
  have one: "prepare_features pd m fr = Inl (ValidationError
         (''Unsupported dtype '' @ quoted dtype @ '' for column '' @ quoted column @ ''.''))"
    if "\<not> startswith dtype ''int''" "\<not> startswith dtype ''float''" "dtype \<noteq> ''category''"
    unfolding pf using that cells by simp
  have two: "\<exists>e. prepare_features pd m fr = Inl e"
    if num: "startswith dtype ''int'' \<or> startswith dtype ''float''"
      and raw: "getitem fr column = Inr raw" "CStr s \<in> set raw" "\<not> blank s" "parse_numeric pd s = None"
    for raw s
  proof -
    have "map_of selected column = Some raw"
      using getitems_map_of [OF assms(4) assms(7) raw(1)] .
    then have "map_of ?start column = Some (map replace_blank raw)"
      by (simp add: map_of_map)
    then have "cells = map replace_blank raw"
      using coerce_untouched [OF assms(8) assms(6)] cells by simp
    moreover have "replace_blank (CStr s) = CStr s" using raw(3) by simp
    ultimately have "CStr s \<in> set cells" using raw(2) by (metis image_eqI list.set_map)
    from to_numeric_unparsable [OF this raw(4)] obtain e where "to_numeric pd cells = Inl e" ..
    with num cells have "coerce pd ((column, dtype) # rest) features = Inl e" by auto
    then show ?thesis unfolding pf by simp
  qed
  have three: "prepare_features pd (m\<lparr>dtype_map := filter (\<lambda>(c, d). c \<in> set (expected_columns m)) (dtype_map m)\<rparr>) fr
        = prepare_features pd m fr"
  proof (cases "getitems fr (expected_columns m)")
    case (Inl e)
    then show ?thesis by (simp add: prepare_features_def missing_def)
  next
    case (Inr sel)
    have "fst ` set (map (\<lambda>(l, cells). (l, map replace_blank cells)) sel) = set (expected_columns m)"
      using getitems_labels [OF Inr] blanked_labels [of sel] by (metis list.set_map)
    then have "coerce pd (filter (\<lambda>(c, d). c \<in> set (expected_columns m)) (dtype_map m))
        (map (\<lambda>(l, cells). (l, map replace_blank cells)) sel)
      = coerce pd (dtype_map m) (map (\<lambda>(l, cells). (l, map replace_blank cells)) sel)"
      using coerce_filter [of pd "map (\<lambda>(l, cells). (l, map replace_blank cells)) sel" "dtype_map m"] by simp
    with Inr show ?thesis by (simp add: prepare_features_def missing_def split: sum.splits)
  qed
  from one two three show ?thesis by blast
qed

theorem dtype_loop_first_failure_witness:
  "id_column model_object_age \<in> set (labels sample_frame) \<and> ''default'' \<notin> set (labels sample_frame) \<and>
   missing model_object_age sample_frame = [] \<and>
   dtype_map model_object_age = [(''LIMIT_BAL'', ''float'')] @ (''AGE'', ''object'') # [] \<and>
   ''AGE'' \<in> set (expected_columns model_object_age) \<and>
   prepare_features sample_pandas model_object_age sample_frame
     = Inl (ValidationError ''Unsupported dtype 'object' for column 'AGE'.'') \<and>
   dtype_map sample_model = [(''LIMIT_BAL'', ''float'')] @ (''AGE'', ''int'') # [] \<and>
   getitem frame_unparsable_age ''AGE'' = Inr [CStr ''abc''] \<and> \<not> blank ''abc'' \<and>
   parse_numeric sample_pandas ''abc'' = None \<and>
   (\<exists>e. prepare_features sample_pandas sample_model frame_unparsable_age = Inl e)"
proof -
  let ?sel = "[(''LIMIT_BAL'', [CStr ''200000'']), (''AGE'', [CStr ''35''])]"
  let ?sel' = "[(''LIMIT_BAL'', [CStr ''200000'']), (''AGE'', [CStr ''abc''])]"
  let ?feat = "[(''LIMIT_BAL'', [CFloat (Fin 200000)]), (''AGE'', [CStr ''35''])]"
  let ?feat' = "[(''LIMIT_BAL'', [CFloat (Fin 200000)]), (''AGE'', [CStr ''abc''])]"
  have a1: "id_column model_object_age \<in> set (labels sample_frame)"
    and a2: "''default'' \<notin> set (labels sample_frame)"
    and a3: "missing model_object_age sample_frame = []"
    and a4: "getitems sample_frame (expected_columns model_object_age) = Inr ?sel"
    and a5: "dtype_map model_object_age = [(''LIMIT_BAL'', ''float'')] @ (''AGE'', ''object'') # []"
    and a6: "''AGE'' \<notin> fst ` set [(''LIMIT_BAL'', ''float'')]"
    and a7: "''AGE'' \<in> set (expected_columns model_object_age)"
    and a8: "coerce sample_pandas [(''LIMIT_BAL'', ''float'')]
        (map (\<lambda>(l, cells). (l, map replace_blank cells)) ?sel) = Inr ?feat"
    by (simp_all add: eval_defs model_object_age_def sample_frame_def)
  have b1: "id_column sample_model \<in> set (labels frame_unparsable_age)"
    and b2: "''default'' \<notin> set (labels frame_unparsable_age)"
    and b3: "missing sample_model frame_unparsable_age = []"
    and b4: "getitems frame_unparsable_age (expected_columns sample_model) = Inr ?sel'"
    and b5: "dtype_map sample_model = [(''LIMIT_BAL'', ''float'')] @ (''AGE'', ''int'') # []"
    and b7: "''AGE'' \<in> set (expected_columns sample_model)"
    and b8: "coerce sample_pandas [(''LIMIT_BAL'', ''float'')]
        (map (\<lambda>(l, cells). (l, map replace_blank cells)) ?sel') = Inr ?feat'"
    and b9: "getitem frame_unparsable_age ''AGE'' = Inr [CStr ''abc'']" "\<not> blank ''abc''"
      "parse_numeric sample_pandas ''abc'' = None"
    by (simp_all add: eval_defs frame_unparsable_age_def)
  have q: "''Unsupported dtype '' @ quoted ''object'' @ '' for column '' @ quoted ''AGE'' @ ''.''
      = ''Unsupported dtype 'object' for column 'AGE'.''"
    by (simp add: quoted_def)
  have s: "\<not> startswith ''object'' ''int''" "\<not> startswith ''object'' ''float''" "startswith ''int'' ''int''"
    by (simp_all add: startswith_def)
  from dtype_loop_first_failure [OF a1 a2 a3 a4 a5 a6 a7 a8] s q
  have A: "prepare_features sample_pandas model_object_age sample_frame
     = Inl (ValidationError ''Unsupported dtype 'object' for column 'AGE'.'')" by simp
  have mem: "CStr ''abc'' \<in> set [CStr ''abc'']" by simp
  from dtype_loop_first_failure [OF b1 b2 b3 b4 b5 a6 b7 b8] s b9 mem
  have B: "\<exists>e. prepare_features sample_pandas sample_model frame_unparsable_age = Inl e" by blast
  from A B a1 a2 a3 a5 a7 b5 b9 show ?thesis by simp
qed

end
